theory Spec2Isabelle
  imports Complex_Main "HOL-Library.Word" "HOL-Library.Signed_Division"
begin

section \<open>Data model (package models)\<close>

text \<open>
  A \<^verbatim>\<open>time.Time\<close> instant is modelled as the integer number of nanoseconds that
  separate it from Go's zero \<^verbatim>\<open>Time\<close>; the zero value of the type is \<open>0\<close> and
  \<^verbatim>\<open>Before\<close> and \<^verbatim>\<open>After\<close> compare these integers.
  Go's \<^verbatim>\<open>int\<close> is the 64-bit two's complement integer of the build target
  (\<^verbatim>\<open>GOARCH\<close> defaults to \<^verbatim>\<open>amd64\<close>): \<open>+\<close>, \<open>-\<close> and \<open>*\<close> wrap around,
  comparisons are signed and \<^verbatim>\<open>/\<close> truncates towards zero.
\<close>

type_synonym time = int
type_synonym go_int = "64 word"

text \<open>
  Go's integer quotient \<^verbatim>\<open>a / b\<close> for a divisor other than zero (a zero divisor
  panics; the only division of the service divides by a page size between 1 and 100).
\<close>

definition go_div :: "go_int \<Rightarrow> go_int \<Rightarrow> go_int" where
  "go_div a b = word_of_int (sint a sdiv sint b)"

record User =
  ID :: string
  Email :: string
  Name :: string
  Role :: string
  Active :: bool
  CreatedAt :: time
  UpdatedAt :: time

text \<open>
  \<^verbatim>\<open>NewUser\<close> reads the clock (\<^verbatim>\<open>time.Now().UTC()\<close>) and draws an identifier
  (\<^verbatim>\<open>uuid.New().String()\<close>); both readings are inputs of the model.
\<close>

definition NewUser :: "time \<Rightarrow> string \<Rightarrow> string \<Rightarrow> string \<Rightarrow> string \<Rightarrow> User" where
  "NewUser now uuid email name role =
     \<lparr>ID = uuid, Email = email, Name = name, Role = role, Active = True,
      CreatedAt = now, UpdatedAt = now\<rparr>"

record UserCreateRequest =
  req_Email :: string
  req_Name :: string
  req_Role :: string

text \<open>The update request has pointer fields: \<open>None\<close> is Go's \<^verbatim>\<open>nil\<close>.\<close>

record UserUpdateRequest =
  upd_Email :: "string option"
  upd_Name :: "string option"
  upd_Role :: "string option"
  upd_Active :: "bool option"

record UserResponse =
  resp_ID :: string
  resp_Email :: string
  resp_Name :: string
  resp_Role :: string
  resp_Active :: bool
  resp_CreatedAt :: time
  resp_UpdatedAt :: time

definition ToResponse :: "User \<Rightarrow> UserResponse" where
  "ToResponse u =
     \<lparr>resp_ID = ID u, resp_Email = Email u, resp_Name = Name u, resp_Role = Role u,
      resp_Active = Active u, resp_CreatedAt = CreatedAt u, resp_UpdatedAt = UpdatedAt u\<rparr>"

record UserListResponse =
  Users :: "UserResponse list"
  Total :: go_int
  Page :: go_int
  PageSize :: go_int
  TotalPages :: go_int

section \<open>Error taxonomy (package errors)\<close>

text \<open>
  A Go \<^verbatim>\<open>error\<close> coming out of a repository is represented by its text. The
  \<^verbatim>\<open>StackTrace\<close> field of \<^verbatim>\<open>AppError\<close> is never serialised nor read and is left
  out.
\<close>

type_synonym go_error = string

record AppError =
  Code :: int
  Message :: string
  Detail :: string
  Internal :: "go_error option"

definition Error :: "AppError \<Rightarrow> string" where
  "Error e = (case Internal e of Some i \<Rightarrow> Message e @ '': '' @ i | None \<Rightarrow> Message e)"

definition ErrCodeNotFound :: int where "ErrCodeNotFound = 404"
definition ErrCodeConflict :: int where "ErrCodeConflict = 409"
definition ErrCodeInternal :: int where "ErrCodeInternal = 500"

definition ErrInternalServer :: AppError where
  "ErrInternalServer =
     \<lparr>Code = ErrCodeInternal, Message = ''An unexpected error occurred'', Detail = [],
      Internal = None\<rparr>"

definition NewAppError :: "int \<Rightarrow> string \<Rightarrow> string \<Rightarrow> go_error option \<Rightarrow> AppError" where
  "NewAppError code message detail internal =
     \<lparr>Code = code, Message = message, Detail = detail, Internal = internal\<rparr>"

definition NotFoundError :: "string \<Rightarrow> string \<Rightarrow> AppError" where
  "NotFoundError resource uid =
     \<lparr>Code = ErrCodeNotFound, Message = resource @ '' not found'', Detail = ''ID: '' @ uid,
      Internal = None\<rparr>"

definition HTTPStatus :: "AppError \<Rightarrow> int" where
  "HTTPStatus e = Code e"

section \<open>Repository interface and the in-memory repository\<close>

text \<open>
  \<^verbatim>\<open>UserRepository\<close> is an interface; an implementation is a record of operations over
  its own state type \<open>'s\<close>. A failing call returns the error (\<open>Inl\<close>, or \<open>Some\<close> for
  the calls that return only an error). \<^verbatim>\<open>Create\<close> and \<^verbatim>\<open>Update\<close> receive a
  \<^verbatim>\<open>*User\<close>, which the implementation may write to, so they also return the object as
  they leave it.
\<close>

record 's UserRepository =
  Create :: "'s \<Rightarrow> User \<Rightarrow> go_error option \<times> User \<times> 's"
  GetByID :: "'s \<Rightarrow> string \<Rightarrow> go_error + User option"
  GetByEmail :: "'s \<Rightarrow> string \<Rightarrow> go_error + User option"
  Update :: "'s \<Rightarrow> User \<Rightarrow> go_error option \<times> User \<times> 's"
  Delete :: "'s \<Rightarrow> string \<Rightarrow> go_error option \<times> 's"
  List :: "'s \<Rightarrow> go_int \<Rightarrow> go_int \<Rightarrow> go_error + User list"
  Count :: "'s \<Rightarrow> go_error + go_int"

text \<open>
  The in-memory repository is a Go map from identifier to \<^verbatim>\<open>*User\<close>. The model stores
  the records themselves. The service reaches a stored object only through the key it
  was looked up with and never writes its \<^verbatim>\<open>ID\<close>, so as long as every key equals the
  \<^verbatim>\<open>ID\<close> of its record (\<open>keys_match\<close> below) no two keys share an object and writing
  through the pointer is the same as storing the changed record under its key.
\<close>

type_synonym users = "string \<rightharpoonup> User"

definition NewInMemoryUserRepository :: users where
  "NewInMemoryUserRepository = Map.empty"

definition InMemory_Create :: "users \<Rightarrow> User \<Rightarrow> go_error option \<times> User \<times> users" where
  "InMemory_Create r user = (None, user, r(ID user \<mapsto> user))"

definition InMemory_GetByID :: "users \<Rightarrow> string \<Rightarrow> go_error + User option" where
  "InMemory_GetByID r uid = (case r uid of None \<Rightarrow> Inr None | Some user \<Rightarrow> Inr (Some user))"

text \<open>
  A \<^verbatim>\<open>range\<close> over a Go map visits every entry once, in an order the language leaves
  open. The order of one iteration is the list \<open>ks\<close> of keys; \<open>iteration_order\<close> says
  that \<open>ks\<close> is such an order for the map.
\<close>

definition iteration_order :: "users \<Rightarrow> string list \<Rightarrow> bool" where
  "iteration_order r ks \<longleftrightarrow> distinct ks \<and> set ks = dom r"

fun range_users :: "users \<Rightarrow> string list \<Rightarrow> User list" where
  "range_users r [] = []"
| "range_users r (k # ks) =
     (case r k of None \<Rightarrow> range_users r ks | Some user \<Rightarrow> user # range_users r ks)"

fun GetByEmail_loop :: "User list \<Rightarrow> string \<Rightarrow> User option" where
  "GetByEmail_loop [] email = None"
| "GetByEmail_loop (user # rest) email =
     (if Email user = email then Some user else GetByEmail_loop rest email)"

definition InMemory_GetByEmail :: "string list \<Rightarrow> users \<Rightarrow> string \<Rightarrow> go_error + User option" where
  "InMemory_GetByEmail ks r email = Inr (GetByEmail_loop (range_users r ks) email)"

definition InMemory_Update :: "users \<Rightarrow> User \<Rightarrow> go_error option \<times> User \<times> users" where
  "InMemory_Update r user = (None, user, r(ID user \<mapsto> user))"

definition InMemory_Delete :: "users \<Rightarrow> string \<Rightarrow> go_error option \<times> users" where
  "InMemory_Delete r uid = (None, r(uid := None))"

text \<open>
  The loop of \<^verbatim>\<open>List\<close>: \<open>count\<close> entries have been visited and \<open>acc\<close> is the slice
  built so far. \<^verbatim>\<open>make([]*User, 0, limit)\<close> panics for a negative \<open>limit\<close>; a panic is
  not an error value, and the service only asks for limits from 1 to 100, so \<open>List_loop\<close>
  is the behaviour for \<open>0 \<le> limit\<close>.
\<close>

fun List_loop :: "User list \<Rightarrow> nat \<Rightarrow> int \<Rightarrow> int \<Rightarrow> User list \<Rightarrow> User list" where
  "List_loop [] count limit offset acc = acc"
| "List_loop (user # rest) count limit offset acc =
     (if int count \<ge> offset then
        (let acc' = acc @ [user] in
         if int (length acc') \<ge> limit then acc'
         else List_loop rest (Suc count) limit offset acc')
      else List_loop rest (Suc count) limit offset acc)"

definition InMemory_List :: "string list \<Rightarrow> users \<Rightarrow> go_int \<Rightarrow> go_int \<Rightarrow> go_error + User list" where
  "InMemory_List ks r limit offset =
     Inr (List_loop (range_users r ks) 0 (sint limit) (sint offset) [])"

definition InMemory_Count :: "users \<Rightarrow> go_error + go_int" where
  "InMemory_Count r = Inr (of_nat (card (dom r)))"

definition InMemoryUserRepository :: "string list \<Rightarrow> users UserRepository" where
  "InMemoryUserRepository ks =
     \<lparr>Create = InMemory_Create, GetByID = InMemory_GetByID,
      GetByEmail = InMemory_GetByEmail ks, Update = InMemory_Update,
      Delete = InMemory_Delete, List = InMemory_List ks, Count = InMemory_Count\<rparr>"

text \<open>The invariant of the in-memory map: every key is the \<^verbatim>\<open>ID\<close> of its record.\<close>

definition keys_match :: "users \<Rightarrow> bool" where
  "keys_match r \<longleftrightarrow> (\<forall>k u. r k = Some u \<longrightarrow> ID u = k)"

text \<open>Email uniqueness, the invariant the service layer enforces by lookup before write.\<close>

definition emails_unique :: "users \<Rightarrow> bool" where
  "emails_unique r \<longleftrightarrow>
     (\<forall>k k' u u'. r k = Some u \<longrightarrow> r k' = Some u' \<longrightarrow> Email u = Email u' \<longrightarrow> k = k')"

section \<open>User service (package services)\<close>

text \<open>
  The service holds a repository behind the interface. Each operation takes the
  repository state and returns the result together with the state the repository is
  left in. Log lines and metric increments do not influence either and are left out.
\<close>

definition CreateUser ::
  "'s UserRepository \<Rightarrow> time \<Rightarrow> string \<Rightarrow> UserCreateRequest \<Rightarrow> 's \<Rightarrow> (AppError + UserResponse) \<times> 's" where
  "CreateUser repo now uuid req s =
     (case GetByEmail repo s (req_Email req) of
        Inl err \<Rightarrow> (Inl ErrInternalServer, s)
      | Inr (Some existing) \<Rightarrow>
          (Inl (NewAppError ErrCodeConflict ''User with this email already exists''
                  (req_Email req) None), s)
      | Inr None \<Rightarrow>
          (case Create repo s (NewUser now uuid (req_Email req) (req_Name req) (req_Role req)) of
             (Some err, user, s') \<Rightarrow> (Inl ErrInternalServer, s')
           | (None, user, s') \<Rightarrow> (Inr (ToResponse user), s')))"

definition GetUser :: "'s UserRepository \<Rightarrow> string \<Rightarrow> 's \<Rightarrow> AppError + UserResponse" where
  "GetUser repo uid s =
     (case GetByID repo s uid of
        Inl err \<Rightarrow> Inl ErrInternalServer
      | Inr None \<Rightarrow> Inl (NotFoundError ''User'' uid)
      | Inr (Some user) \<Rightarrow> Inr (ToResponse user))"

definition ListUsers_page :: "go_int \<Rightarrow> go_int" where
  "ListUsers_page page = (if page <s 1 then 1 else page)"

definition ListUsers_pageSize :: "go_int \<Rightarrow> go_int" where
  "ListUsers_pageSize pageSize = (if pageSize <s 1 \<or> 100 <s pageSize then 10 else pageSize)"

definition ListUsers_offset :: "go_int \<Rightarrow> go_int \<Rightarrow> go_int" where
  "ListUsers_offset page pageSize = (ListUsers_page page - 1) * ListUsers_pageSize pageSize"

definition ListUsers :: "'s UserRepository \<Rightarrow> go_int \<Rightarrow> go_int \<Rightarrow> 's \<Rightarrow> AppError + UserListResponse" where
  "ListUsers repo page0 pageSize0 s =
     (let page = ListUsers_page page0;
          pageSize = ListUsers_pageSize pageSize0;
          offset = ListUsers_offset page0 pageSize0
      in case List repo s pageSize offset of
           Inl err \<Rightarrow> Inl ErrInternalServer
         | Inr users \<Rightarrow>
             (case Count repo s of
                Inl err \<Rightarrow> Inl ErrInternalServer
              | Inr total' \<Rightarrow>
                  Inr \<lparr>Users = map ToResponse users, Total = total', Page = page,
                       PageSize = pageSize,
                       TotalPages = go_div (total' + pageSize - 1) pageSize\<rparr>))"

definition apply_update :: "UserUpdateRequest \<Rightarrow> User \<Rightarrow> User" where
  "apply_update req user =
     (let user = (case upd_Email req of Some e \<Rightarrow> user\<lparr>Email := e\<rparr> | None \<Rightarrow> user);
          user = (case upd_Name req of Some n \<Rightarrow> user\<lparr>Name := n\<rparr> | None \<Rightarrow> user);
          user = (case upd_Role req of Some ro \<Rightarrow> user\<lparr>Role := ro\<rparr> | None \<Rightarrow> user);
          user = (case upd_Active req of Some a \<Rightarrow> user\<lparr>Active := a\<rparr> | None \<Rightarrow> user)
      in user)"

definition UpdateUser_store ::
  "'s UserRepository \<Rightarrow> UserUpdateRequest \<Rightarrow> User \<Rightarrow> 's \<Rightarrow> (AppError + UserResponse) \<times> 's" where
  "UpdateUser_store repo req user s =
     (case Update repo s (apply_update req user) of
        (Some err, user', s') \<Rightarrow> (Inl ErrInternalServer, s')
      | (None, user', s') \<Rightarrow> (Inr (ToResponse user'), s'))"

definition UpdateUser ::
  "'s UserRepository \<Rightarrow> string \<Rightarrow> UserUpdateRequest \<Rightarrow> 's \<Rightarrow> (AppError + UserResponse) \<times> 's" where
  "UpdateUser repo uid req s =
     (case GetByID repo s uid of
        Inl err \<Rightarrow> (Inl ErrInternalServer, s)
      | Inr None \<Rightarrow> (Inl (NotFoundError ''User'' uid), s)
      | Inr (Some user) \<Rightarrow>
          (case upd_Email req of
             None \<Rightarrow> UpdateUser_store repo req user s
           | Some email \<Rightarrow>
               (case GetByEmail repo s email of
                  Inl err \<Rightarrow> (Inl ErrInternalServer, s)
                | Inr existing \<Rightarrow>
                    (if existing \<noteq> None \<and> ID (the existing) \<noteq> uid
                     then (Inl (NewAppError ErrCodeConflict ''Email is already in use'' email None), s)
                     else UpdateUser_store repo req user s))))"

definition DeleteUser :: "'s UserRepository \<Rightarrow> string \<Rightarrow> 's \<Rightarrow> AppError option \<times> 's" where
  "DeleteUser repo uid s =
     (case GetByID repo s uid of
        Inl err \<Rightarrow> (Some ErrInternalServer, s)
      | Inr None \<Rightarrow> (Some (NotFoundError ''User'' uid), s)
      | Inr (Some user) \<Rightarrow>
          (case Delete repo s uid of
             (Some err, s') \<Rightarrow> (Some ErrInternalServer, s')
           | (None, s') \<Rightarrow> (None, s')))"

section \<open>HTTP handler (package api)\<close>

text \<open>
  \<^verbatim>\<open>Handlers.GetUser\<close> reads the \<^verbatim>\<open>id\<close> URL parameter (\<open>uid\<close>) and writes a status and a JSON
  body. The \<^verbatim>\<open>Handlers\<close> struct holds configuration, metrics and a logger, and no
  service or repository. The two time fields of the body are not assigned and keep the
  zero value.
\<close>

definition Handlers_GetUser :: "string \<Rightarrow> int \<times> UserResponse" where
  "Handlers_GetUser uid =
     (200, \<lparr>resp_ID = uid, resp_Email = ''user@example.com'', resp_Name = ''Test User'',
            resp_Role = ''user'', resp_Active = True, resp_CreatedAt = 0,
            resp_UpdatedAt = 0\<rparr>)"

section \<open>Sample data\<close>

text \<open>
  Two users as the unit tests build them, the repository that holds both, and a
  repository double that fails, with a fixed error, the operations named in \<open>failing\<close>
  and otherwise behaves as the in-memory repository.
\<close>

definition alice :: User where
  "alice = NewUser 1000 ''u1'' ''alice@example.com'' ''Alice'' ''admin''"

definition bob :: User where
  "bob = NewUser 2000 ''u2'' ''bob@example.com'' ''Bob'' ''user''"

definition two_users :: users where
  "two_users = [''u1'' \<mapsto> alice, ''u2'' \<mapsto> bob]"

definition FailingRepository :: "string list \<Rightarrow> users UserRepository" where
  "FailingRepository failing =
     \<lparr>Create = (\<lambda>s user. if ''Create'' \<in> set failing
                  then (Some ''connection refused'', user, s) else InMemory_Create s user),
      GetByID = (\<lambda>s uid. if ''GetByID'' \<in> set failing
                  then Inl ''connection refused'' else InMemory_GetByID s uid),
      GetByEmail = (\<lambda>s email. if ''GetByEmail'' \<in> set failing
                  then Inl ''connection refused''
                  else InMemory_GetByEmail [''u1'', ''u2''] s email),
      Update = (\<lambda>s user. if ''Update'' \<in> set failing
                  then (Some ''connection refused'', user, s) else InMemory_Update s user),
      Delete = (\<lambda>s uid. if ''Delete'' \<in> set failing
                  then (Some ''connection refused'', s) else InMemory_Delete s uid),
      List = (\<lambda>s limit offset. if ''List'' \<in> set failing
                  then Inl ''connection refused''
                  else InMemory_List [''u1'', ''u2''] s limit offset),
      Count = (\<lambda>s. if ''Count'' \<in> set failing
                  then Inl ''connection refused'' else InMemory_Count s)\<rparr>"

section \<open>The in-memory repository\<close>

lemma keys_match_empty: "keys_match NewInMemoryUserRepository"
  by (simp add: keys_match_def NewInMemoryUserRepository_def)

lemma range_users_stored: "u \<in> set (range_users r ks) \<Longrightarrow> \<exists>k. r k = Some u"
  by (induction ks) (auto split: option.splits)

lemma range_users_complete:
  "r k = Some u \<Longrightarrow> k \<in> set ks \<Longrightarrow> u \<in> set (range_users r ks)"
  by (induction ks) (auto split: option.splits)

lemma GetByEmail_loop_Some:
  "GetByEmail_loop us email = Some u \<Longrightarrow> u \<in> set us \<and> Email u = email"
  by (induction us) (auto split: if_splits)

lemma GetByEmail_loop_None:
  "GetByEmail_loop us email = None \<longleftrightarrow> (\<forall>u \<in> set us. Email u \<noteq> email)"
  by (induction us) auto

text \<open>Whatever the iteration order, an email that no stored record has is not found.\<close>

lemma InMemory_GetByEmail_None:
  "\<forall>k u. r k = Some u \<longrightarrow> Email u \<noteq> email \<Longrightarrow> InMemory_GetByEmail ks r email = Inr None"
proof -
  assume a: "\<forall>k u. r k = Some u \<longrightarrow> Email u \<noteq> email"
  have "\<forall>u \<in> set (range_users r ks). Email u \<noteq> email"
  proof
    fix u assume "u \<in> set (range_users r ks)"
    then obtain k where "r k = Some u" by (auto dest: range_users_stored)
    with a show "Email u \<noteq> email" by blast
  qed
  then have "GetByEmail_loop (range_users r ks) email = None"
    by (simp add: GetByEmail_loop_None)
  then show ?thesis by (simp add: InMemory_GetByEmail_def)
qed

text \<open>With unique emails the lookup returns the one owner, whatever the iteration order.\<close>

lemma InMemory_GetByEmail_unique:
  assumes "iteration_order r ks" "emails_unique r" "r k = Some u"
  shows "InMemory_GetByEmail ks r (Email u) = Inr (Some u)"
proof -
  from assms(1,3) have "k \<in> set ks" by (auto simp: iteration_order_def)
  with assms(3) have "u \<in> set (range_users r ks)" by (rule range_users_complete)
  then have "GetByEmail_loop (range_users r ks) (Email u) \<noteq> None"
    by (auto simp: GetByEmail_loop_None)
  then obtain w where w: "GetByEmail_loop (range_users r ks) (Email u) = Some w" by auto
  then have "w \<in> set (range_users r ks)" "Email w = Email u"
    by (auto dest: GetByEmail_loop_Some)
  then obtain k' where "r k' = Some w" by (auto dest: range_users_stored)
  with assms(2,3) \<open>Email w = Email u\<close> have "k' = k"
    unfolding emails_unique_def by blast
  with \<open>r k' = Some w\<close> assms(3) have "w = u" by simp
  with w show ?thesis by (simp add: InMemory_GetByEmail_def)
qed

lemma two_users_order: "iteration_order two_users [''u1'', ''u2'']"
  by (auto simp: iteration_order_def two_users_def)

lemma two_users_unique: "emails_unique two_users"
  by (auto simp: emails_unique_def two_users_def alice_def bob_def NewUser_def
      split: if_splits)

lemma two_users_keys: "keys_match two_users"
  by (auto simp: keys_match_def two_users_def alice_def bob_def NewUser_def split: if_splits)

text \<open>
  C9. At the repository level \<^verbatim>\<open>Delete(id)\<close> returns no error in every state and for
  every identifier, stored or not, and deleting a second time leaves the state that
  the first deletion produced, again without error.
\<close>

theorem InMemory_Delete_idempotent:
  "fst (InMemory_Delete r uid) = None \<and>
   fst (InMemory_Delete (snd (InMemory_Delete r uid)) uid) = None \<and>
   snd (InMemory_Delete (snd (InMemory_Delete r uid)) uid) = snd (InMemory_Delete r uid)"
  by (simp add: InMemory_Delete_def)

text \<open>
  C10. If every key of the in-memory map is the \<^verbatim>\<open>ID\<close> of the record stored under
  it, the same holds after \<^verbatim>\<open>Create\<close>, after \<^verbatim>\<open>Update\<close> and after
  \<^verbatim>\<open>Delete\<close>, for every user and identifier passed in.
\<close>

theorem keys_match_preserved:
  "keys_match r \<Longrightarrow>
     keys_match (snd (snd (InMemory_Create r user))) \<and>
     keys_match (snd (snd (InMemory_Update r user))) \<and>
     keys_match (snd (InMemory_Delete r uid))"
  by (auto simp: keys_match_def InMemory_Create_def InMemory_Update_def InMemory_Delete_def)

theorem keys_match_preserved_witness:
  "keys_match two_users \<and>
   keys_match (snd (snd (InMemory_Create two_users (NewUser 3000 ''u3'' ''c@example.com'' ''Carol'' ''viewer'')))) \<and>
   keys_match (snd (snd (InMemory_Update two_users (alice\<lparr>Name := ''Alicia''\<rparr>)))) \<and>
   keys_match (snd (InMemory_Delete two_users ''u2''))"
  using keys_match_preserved [OF two_users_keys] two_users_keys by simp

section \<open>The user service over the in-memory repository\<close>

text \<open>
  C1. In every repository state and for every iteration order of the map: when
  \<^verbatim>\<open>GetByEmail\<close> finds a record with the email of the request, \<^verbatim>\<open>CreateUser\<close>
  returns the conflict error, whose HTTP code is 409, and the repository is left as it
  was; when \<^verbatim>\<open>GetByEmail\<close> finds none, \<^verbatim>\<open>CreateUser\<close> builds the user with
  \<^verbatim>\<open>NewUser\<close>, stores it under its identifier and returns its view.
\<close>

theorem CreateUser_conflict_or_persist:
  "(InMemory_GetByEmail ks r (req_Email req) = Inr (Some existing) \<longrightarrow>
      CreateUser (InMemoryUserRepository ks) now uuid req r =
        (Inl (NewAppError ErrCodeConflict ''User with this email already exists''
                (req_Email req) None), r) \<and>
      HTTPStatus (NewAppError ErrCodeConflict ''User with this email already exists''
                (req_Email req) None) = 409) \<and>
   (InMemory_GetByEmail ks r (req_Email req) = Inr None \<longrightarrow>
      CreateUser (InMemoryUserRepository ks) now uuid req r =
        (Inr (ToResponse (NewUser now uuid (req_Email req) (req_Name req) (req_Role req))),
         r(uuid \<mapsto> NewUser now uuid (req_Email req) (req_Name req) (req_Role req))))"
  by (simp add: CreateUser_def InMemoryUserRepository_def InMemory_Create_def HTTPStatus_def
      NewAppError_def ErrCodeConflict_def NewUser_def)

theorem CreateUser_conflict_or_persist_witness:
  "CreateUser (InMemoryUserRepository [''u1'', ''u2'']) 3000 ''u3''
     \<lparr>req_Email = ''alice@example.com'', req_Name = ''Al'', req_Role = ''user''\<rparr> two_users =
     (Inl (NewAppError ErrCodeConflict ''User with this email already exists''
             ''alice@example.com'' None), two_users) \<and>
   CreateUser (InMemoryUserRepository [''u1'', ''u2'']) 3000 ''u3''
     \<lparr>req_Email = ''carol@example.com'', req_Name = ''Carol'', req_Role = ''viewer''\<rparr> two_users =
     (Inr (ToResponse (NewUser 3000 ''u3'' ''carol@example.com'' ''Carol'' ''viewer'')),
      two_users(''u3'' \<mapsto> NewUser 3000 ''u3'' ''carol@example.com'' ''Carol'' ''viewer''))"
proof -
  have found: "InMemory_GetByEmail [''u1'', ''u2''] two_users ''alice@example.com'' = Inr (Some alice)"
    by (simp add: InMemory_GetByEmail_def two_users_def alice_def bob_def NewUser_def)
  have fresh: "InMemory_GetByEmail [''u1'', ''u2''] two_users ''carol@example.com'' = Inr None"
    by (simp add: InMemory_GetByEmail_def two_users_def alice_def bob_def NewUser_def)
  from found fresh
    CreateUser_conflict_or_persist [of "[''u1'', ''u2'']" two_users
      "\<lparr>req_Email = ''alice@example.com'', req_Name = ''Al'', req_Role = ''user''\<rparr>"
      alice 3000 "''u3''"]
    CreateUser_conflict_or_persist [of "[''u1'', ''u2'']" two_users
      "\<lparr>req_Email = ''carol@example.com'', req_Name = ''Carol'', req_Role = ''viewer''\<rparr>"
      alice 3000 "''u3''"]
  show ?thesis by simp
qed

text \<open>
  C5. When no stored record has the email of the request, \<^verbatim>\<open>CreateUser\<close> succeeds;
  the email, name and role of the returned record are those of the request, it is
  active, and its creation and update stamps are both the clock reading taken at
  creation, hence equal.
\<close>

theorem CreateUser_fresh_email:
  assumes "\<forall>k u. r k = Some u \<longrightarrow> Email u \<noteq> req_Email req"
  shows "\<exists>resp r'. CreateUser (InMemoryUserRepository ks) now uuid req r = (Inr resp, r') \<and>
           resp_Email resp = req_Email req \<and> resp_Name resp = req_Name req \<and>
           resp_Role resp = req_Role req \<and> resp_Active resp = True \<and>
           resp_CreatedAt resp = now \<and> resp_UpdatedAt resp = now \<and>
           resp_CreatedAt resp = resp_UpdatedAt resp"
  using InMemory_GetByEmail_None [OF assms, of ks]
  by (simp add: CreateUser_def InMemoryUserRepository_def InMemory_Create_def NewUser_def
      ToResponse_def)

theorem CreateUser_fresh_email_witness:
  "InMemory_GetByEmail [''u2'', ''u1''] two_users ''carol@example.com'' = Inr None \<and>
   (\<exists>resp r'. CreateUser (InMemoryUserRepository [''u2'', ''u1'']) 3000 ''u3''
       \<lparr>req_Email = ''carol@example.com'', req_Name = ''Carol'', req_Role = ''viewer''\<rparr>
       two_users = (Inr resp, r') \<and>
     resp_Email resp = ''carol@example.com'' \<and> resp_Name resp = ''Carol'' \<and>
     resp_Role resp = ''viewer'' \<and> resp_Active resp = True \<and>
     resp_CreatedAt resp = 3000 \<and> resp_UpdatedAt resp = 3000)"
proof -
  have fresh: "\<forall>k u. two_users k = Some u \<longrightarrow> Email u \<noteq>
      req_Email \<lparr>req_Email = ''carol@example.com'', req_Name = ''Carol'', req_Role = ''viewer''\<rparr>"
    by (simp add: two_users_def alice_def bob_def NewUser_def)
  have none: "InMemory_GetByEmail [''u2'', ''u1''] two_users ''carol@example.com'' = Inr None"
    by (simp add: InMemory_GetByEmail_def two_users_def alice_def bob_def NewUser_def)
  from CreateUser_fresh_email [OF fresh, of "[''u2'', ''u1'']" 3000 "''u3''"] none
  show ?thesis by simp blast
qed

text \<open>
  C6. For a user stored under its identifier, \<^verbatim>\<open>DeleteUser\<close> succeeds and removes
  the record; in the resulting state \<^verbatim>\<open>GetUser\<close> on that identifier returns the
  not-found error, whose HTTP code is 404, and so does a second \<^verbatim>\<open>DeleteUser\<close>.
\<close>

theorem DeleteUser_removes:
  assumes "r (ID u) = Some u"
  shows "DeleteUser (InMemoryUserRepository ks) (ID u) r = (None, r(ID u := None)) \<and>
         GetUser (InMemoryUserRepository ks) (ID u) (r(ID u := None)) =
           Inl (NotFoundError ''User'' (ID u)) \<and>
         DeleteUser (InMemoryUserRepository ks) (ID u) (r(ID u := None)) =
           (Some (NotFoundError ''User'' (ID u)), r(ID u := None)) \<and>
         HTTPStatus (NotFoundError ''User'' (ID u)) = 404"
  using assms
  by (simp add: DeleteUser_def GetUser_def InMemoryUserRepository_def InMemory_GetByID_def
      InMemory_Delete_def HTTPStatus_def NotFoundError_def ErrCodeNotFound_def)

theorem DeleteUser_removes_witness:
  "two_users (ID alice) = Some alice \<and>
   DeleteUser (InMemoryUserRepository [''u1'', ''u2'']) ''u1'' two_users =
     (None, [''u2'' \<mapsto> bob]) \<and>
   GetUser (InMemoryUserRepository [''u2'']) ''u1'' [''u2'' \<mapsto> bob] =
     Inl (NotFoundError ''User'' ''u1'') \<and>
   DeleteUser (InMemoryUserRepository [''u2'']) ''u1'' [''u2'' \<mapsto> bob] =
     (Some (NotFoundError ''User'' ''u1''), [''u2'' \<mapsto> bob])"
proof -
  have stored: "two_users (ID alice) = Some alice"
    by (simp add: two_users_def alice_def bob_def NewUser_def)
  have del: "two_users(ID alice := None) = [''u2'' \<mapsto> bob]"
    by (auto simp add: two_users_def alice_def NewUser_def)
  have i: "ID alice = ''u1''" by (simp add: alice_def NewUser_def)
  from DeleteUser_removes [where r = two_users and u = alice and ks = "[''u1'', ''u2'']"]
    DeleteUser_removes [where r = two_users and u = alice and ks = "[''u2'']"] stored
  show ?thesis unfolding del unfolding i by simp
qed

text \<open>
  C7. For a user stored under its identifier and a request that sets the name and
  nothing else, \<^verbatim>\<open>UpdateUser\<close> succeeds, the stored record has the new name, its
  email, role and creation stamp are what they were, and its update stamp is not
  earlier than before. (The in-memory repository does not touch the stamp at all.)
\<close>

theorem UpdateUser_name_only:
  assumes "r (ID u) = Some u"
    and "req = \<lparr>upd_Email = None, upd_Name = Some n, upd_Role = None, upd_Active = None\<rparr>"
  shows "\<exists>resp r' u'. UpdateUser (InMemoryUserRepository ks) (ID u) req r = (Inr resp, r') \<and>
           r' (ID u) = Some u' \<and> resp = ToResponse u' \<and>
           Email u' = Email u \<and> Role u' = Role u \<and> Name u' = n \<and>
           CreatedAt u' = CreatedAt u \<and> UpdatedAt u' \<ge> UpdatedAt u"
  using assms
  by (simp add: UpdateUser_def UpdateUser_store_def apply_update_def InMemoryUserRepository_def
      InMemory_GetByID_def InMemory_Update_def)

theorem UpdateUser_name_only_witness:
  "two_users (ID alice) = Some alice \<and>
   (\<exists>resp r' u'. UpdateUser (InMemoryUserRepository [''u1'', ''u2'']) ''u1''
          \<lparr>upd_Email = None, upd_Name = Some ''Alicia'', upd_Role = None, upd_Active = None\<rparr>
          two_users = (Inr resp, r') \<and>
      r' ''u1'' = Some u' \<and> resp = ToResponse u' \<and>
      Email u' = ''alice@example.com'' \<and> Role u' = ''admin'' \<and> Name u' = ''Alicia'' \<and>
      CreatedAt u' = 1000 \<and> UpdatedAt u' \<ge> 1000)"
proof -
  have stored: "two_users (ID alice) = Some alice"
    by (simp add: two_users_def alice_def bob_def NewUser_def)
  have a: "ID alice = ''u1''" "Email alice = ''alice@example.com''" "Role alice = ''admin''"
    "CreatedAt alice = 1000" "UpdatedAt alice = 1000"
    by (simp_all add: alice_def NewUser_def)
  from UpdateUser_name_only [where r = two_users and u = alice and ks = "[''u1'', ''u2'']"
      and n = "''Alicia''", OF _ refl] stored
  show ?thesis unfolding a by simp
qed

text \<open>The record an update leaves: the fields present in the request, the others as before.\<close>

lemma apply_update_fields:
  "ID (apply_update req u) = ID u"
  "CreatedAt (apply_update req u) = CreatedAt u"
  "UpdatedAt (apply_update req u) = UpdatedAt u"
  "Email (apply_update req u) = (case upd_Email req of None \<Rightarrow> Email u | Some e \<Rightarrow> e)"
  "Name (apply_update req u) = (case upd_Name req of None \<Rightarrow> Name u | Some n \<Rightarrow> n)"
  "Role (apply_update req u) = (case upd_Role req of None \<Rightarrow> Role u | Some ro \<Rightarrow> ro)"
  "Active (apply_update req u) = (case upd_Active req of None \<Rightarrow> Active u | Some a \<Rightarrow> a)"
  by (simp_all add: apply_update_def Let_def split: option.splits)

text \<open>
  Key-equals-identifier and email uniqueness are invariants of the service over the
  in-memory repository: each mutating operation, failing or not, leaves a repository
  that has them in one that has them.
\<close>

lemma InMemory_GetByEmail_cases:
  assumes "iteration_order r ks"
  shows "(InMemory_GetByEmail ks r email = Inr None \<and>
            (\<forall>k v. r k = Some v \<longrightarrow> Email v \<noteq> email)) \<or>
         (\<exists>k x. InMemory_GetByEmail ks r email = Inr (Some x) \<and> r k = Some x \<and> Email x = email)"
proof (cases "GetByEmail_loop (range_users r ks) email")
  case None
  have "\<forall>k v. r k = Some v \<longrightarrow> Email v \<noteq> email"
  proof (intro allI impI)
    fix k v assume kv: "r k = Some v"
    with assms have "k \<in> set ks" by (auto simp: iteration_order_def)
    with kv have "v \<in> set (range_users r ks)" by (rule range_users_complete)
    with None show "Email v \<noteq> email" by (simp add: GetByEmail_loop_None)
  qed
  with None show ?thesis by (simp add: InMemory_GetByEmail_def)
next
  case (Some x)
  then have "x \<in> set (range_users r ks)" "Email x = email"
    by (auto dest: GetByEmail_loop_Some)
  then obtain k where "r k = Some x" by (auto dest: range_users_stored)
  with Some \<open>Email x = email\<close> show ?thesis by (auto simp add: InMemory_GetByEmail_def)
qed

lemma emails_unique_upd:
  assumes "emails_unique r" "\<forall>k v. k \<noteq> uid \<and> r k = Some v \<longrightarrow> Email v \<noteq> Email u'"
  shows "emails_unique (r(uid \<mapsto> u'))"
  using assms unfolding emails_unique_def
  by (auto split: if_splits) metis+

lemma CreateUser_preserves_invariants:
  assumes "keys_match r" "emails_unique r" "iteration_order r ks"
  shows "keys_match (snd (CreateUser (InMemoryUserRepository ks) now uuid req r)) \<and>
         emails_unique (snd (CreateUser (InMemoryUserRepository ks) now uuid req r))"
proof -
  let ?new = "NewUser now uuid (req_Email req) (req_Name req) (req_Role req)"
  from InMemory_GetByEmail_cases [OF assms(3), of "req_Email req"]
  show ?thesis
  proof (elim disjE conjE exE)
    assume none: "InMemory_GetByEmail ks r (req_Email req) = Inr None"
      and fresh: "\<forall>k v. r k = Some v \<longrightarrow> Email v \<noteq> req_Email req"
    have s: "snd (CreateUser (InMemoryUserRepository ks) now uuid req r) = r(uuid \<mapsto> ?new)"
      using none by (simp add: CreateUser_def InMemoryUserRepository_def InMemory_Create_def
          NewUser_def)
    have "keys_match (r(uuid \<mapsto> ?new))"
      using assms(1) by (auto simp: keys_match_def NewUser_def)
    moreover have "emails_unique (r(uuid \<mapsto> ?new))"
      using assms(2) fresh by (intro emails_unique_upd) (auto simp: NewUser_def)
    ultimately show ?thesis by (simp only: s)
  next
    fix k x assume "InMemory_GetByEmail ks r (req_Email req) = Inr (Some x)"
    then have "snd (CreateUser (InMemoryUserRepository ks) now uuid req r) = r"
      by (simp add: CreateUser_def InMemoryUserRepository_def)
    with assms show ?thesis by simp
  qed
qed

lemma UpdateUser_preserves_invariants:
  assumes km: "keys_match r" and uq: "emails_unique r" and ord: "iteration_order r ks"
  shows "keys_match (snd (UpdateUser (InMemoryUserRepository ks) uid req r)) \<and>
         emails_unique (snd (UpdateUser (InMemoryUserRepository ks) uid req r))"
proof (cases "r uid")
  case None
  then have "snd (UpdateUser (InMemoryUserRepository ks) uid req r) = r"
    by (simp add: UpdateUser_def InMemoryUserRepository_def InMemory_GetByID_def)
  with km uq show ?thesis by simp
next
  case (Some u)
  with km have id: "ID u = uid" by (simp add: keys_match_def)
  let ?u' = "apply_update req u"
  have st: "snd (UpdateUser_store (InMemoryUserRepository ks) req u r) = r(uid \<mapsto> ?u')"
    by (simp add: UpdateUser_store_def InMemoryUserRepository_def InMemory_Update_def
        apply_update_fields id)
  have km': "keys_match (r(uid \<mapsto> ?u'))"
    using km id by (auto simp: keys_match_def apply_update_fields)
  show ?thesis
  proof (cases "upd_Email req")
    case None
    then have e: "Email ?u' = Email u" by (simp add: apply_update_fields)
    have "emails_unique (r(uid \<mapsto> ?u'))"
    proof (intro emails_unique_upd [OF uq] allI impI)
      fix k v assume "k \<noteq> uid \<and> r k = Some v"
      with uq Some show "Email v \<noteq> Email ?u'" unfolding e emails_unique_def by metis
    qed
    moreover have "snd (UpdateUser (InMemoryUserRepository ks) uid req r) = r(uid \<mapsto> ?u')"
      using Some None st
      by (simp add: UpdateUser_def InMemoryUserRepository_def InMemory_GetByID_def)
    ultimately show ?thesis using km' by simp
  next
    case (Some email)
    then have e: "Email ?u' = email" by (simp add: apply_update_fields)
    from InMemory_GetByEmail_cases [OF ord, of email]
    show ?thesis
    proof (elim disjE conjE exE)
      assume none: "InMemory_GetByEmail ks r email = Inr None"
        and fresh: "\<forall>k v. r k = Some v \<longrightarrow> Email v \<noteq> email"
      have "emails_unique (r(uid \<mapsto> ?u'))"
        using fresh by (intro emails_unique_upd [OF uq]) (auto simp add: e)
      moreover have "snd (UpdateUser (InMemoryUserRepository ks) uid req r) = r(uid \<mapsto> ?u')"
        using \<open>r uid = Some u\<close> Some none st
        by (simp add: UpdateUser_def InMemoryUserRepository_def InMemory_GetByID_def)
      ultimately show ?thesis using km' by simp
    next
      fix k x assume x: "InMemory_GetByEmail ks r email = Inr (Some x)" "r k = Some x"
        "Email x = email"
      show ?thesis
      proof (cases "ID x = uid")
        case True
        with km x(2) have "k = uid" by (auto simp: keys_match_def)
        with x(2) \<open>r uid = Some u\<close> have "x = u" by simp
        with x(3) have eu: "Email u = email" by simp
        have "emails_unique (r(uid \<mapsto> ?u'))"
        proof (intro emails_unique_upd [OF uq] allI impI)
          fix k v assume "k \<noteq> uid \<and> r k = Some v"
          with uq \<open>r uid = Some u\<close> show "Email v \<noteq> Email ?u'"
            unfolding e eu [symmetric] emails_unique_def by metis
        qed
        moreover have "snd (UpdateUser (InMemoryUserRepository ks) uid req r) = r(uid \<mapsto> ?u')"
          using \<open>r uid = Some u\<close> Some x(1) True st
          by (simp add: UpdateUser_def InMemoryUserRepository_def InMemory_GetByID_def)
        ultimately show ?thesis using km' by simp
      next
        case False
        then have "snd (UpdateUser (InMemoryUserRepository ks) uid req r) = r"
          using \<open>r uid = Some u\<close> Some x(1)
          by (simp add: UpdateUser_def InMemoryUserRepository_def InMemory_GetByID_def)
        with km uq show ?thesis by simp
      qed
    qed
  qed
qed

lemma DeleteUser_preserves_invariants:
  assumes "keys_match r" "emails_unique r"
  shows "keys_match (snd (DeleteUser (InMemoryUserRepository ks) uid r)) \<and>
         emails_unique (snd (DeleteUser (InMemoryUserRepository ks) uid r))"
proof -
  have "snd (DeleteUser (InMemoryUserRepository ks) uid r) = r \<or>
        snd (DeleteUser (InMemoryUserRepository ks) uid r) = r(uid := None)"
    by (simp add: DeleteUser_def InMemoryUserRepository_def InMemory_GetByID_def
        InMemory_Delete_def split: option.splits)
  moreover have "keys_match (r(uid := None))" "emails_unique (r(uid := None))"
    using assms unfolding keys_match_def emails_unique_def by (auto split: if_splits)
  ultimately show ?thesis using assms by auto
qed

text \<open>
  C3. Let \<open>u\<close> be stored under its identifier in a repository whose emails are
  unique, and let the request set the email. If a record with another \<^verbatim>\<open>ID\<close> has
  that email, \<^verbatim>\<open>UpdateUser\<close> returns the conflict error (HTTP code 409) and leaves
  the repository as it was. If the email is the one \<open>u\<close> already has, the update
  succeeds; it also succeeds whenever no record with another \<^verbatim>\<open>ID\<close> has the email,
  in particular for an email that nobody has yet. On success the record stored under
  the identifier has the email of the request and takes from the request exactly the
  other fields that are present: each absent field, the identifier and both stamps
  keep their values.
\<close>

theorem UpdateUser_email_uniqueness:
  assumes stored: "r (ID u) = Some u"
    and uniq: "emails_unique r"
    and ord: "iteration_order r ks"
    and email: "upd_Email req = Some email"
  shows "((\<exists>k v. r k = Some v \<and> ID v \<noteq> ID u \<and> Email v = email) \<longrightarrow>
            UpdateUser (InMemoryUserRepository ks) (ID u) req r =
              (Inl (NewAppError ErrCodeConflict ''Email is already in use'' email None), r) \<and>
            HTTPStatus (NewAppError ErrCodeConflict ''Email is already in use'' email None) = 409) \<and>
         (Email u = email \<longrightarrow>
            (\<exists>u'. UpdateUser (InMemoryUserRepository ks) (ID u) req r =
                     (Inr (ToResponse u'), r(ID u \<mapsto> u')) \<and>
                   ID u' = ID u \<and> CreatedAt u' = CreatedAt u \<and> UpdatedAt u' = UpdatedAt u \<and>
                   Email u' = email \<and>
                   Name u' = (case upd_Name req of None \<Rightarrow> Name u | Some n \<Rightarrow> n) \<and>
                   Role u' = (case upd_Role req of None \<Rightarrow> Role u | Some ro \<Rightarrow> ro) \<and>
                   Active u' = (case upd_Active req of None \<Rightarrow> Active u | Some a \<Rightarrow> a))) \<and>
         (\<not> (\<exists>k v. r k = Some v \<and> ID v \<noteq> ID u \<and> Email v = email) \<longrightarrow>
            (\<exists>u'. UpdateUser (InMemoryUserRepository ks) (ID u) req r =
                     (Inr (ToResponse u'), r(ID u \<mapsto> u')) \<and>
                   ID u' = ID u \<and> CreatedAt u' = CreatedAt u \<and> UpdatedAt u' = UpdatedAt u \<and>
                   Email u' = email \<and>
                   Name u' = (case upd_Name req of None \<Rightarrow> Name u | Some n \<Rightarrow> n) \<and>
                   Role u' = (case upd_Role req of None \<Rightarrow> Role u | Some ro \<Rightarrow> ro) \<and>
                   Active u' = (case upd_Active req of None \<Rightarrow> Active u | Some a \<Rightarrow> a)))"
proof -
  have fields: "ID (apply_update req u) = ID u" "CreatedAt (apply_update req u) = CreatedAt u"
    "UpdatedAt (apply_update req u) = UpdatedAt u" "Email (apply_update req u) = email"
    "Name (apply_update req u) = (case upd_Name req of None \<Rightarrow> Name u | Some n \<Rightarrow> n)"
    "Role (apply_update req u) = (case upd_Role req of None \<Rightarrow> Role u | Some ro \<Rightarrow> ro)"
    "Active (apply_update req u) = (case upd_Active req of None \<Rightarrow> Active u | Some a \<Rightarrow> a)"
    using email by (simp_all add: apply_update_fields)
  have succ: "(\<exists>u'. UpdateUser (InMemoryUserRepository ks) (ID u) req r =
                     (Inr (ToResponse u'), r(ID u \<mapsto> u')) \<and>
                   ID u' = ID u \<and> CreatedAt u' = CreatedAt u \<and> UpdatedAt u' = UpdatedAt u \<and>
                   Email u' = email \<and>
                   Name u' = (case upd_Name req of None \<Rightarrow> Name u | Some n \<Rightarrow> n) \<and>
                   Role u' = (case upd_Role req of None \<Rightarrow> Role u | Some ro \<Rightarrow> ro) \<and>
                   Active u' = (case upd_Active req of None \<Rightarrow> Active u | Some a \<Rightarrow> a))"
    if no_other: "\<not> (\<exists>k v. r k = Some v \<and> ID v \<noteq> ID u \<and> Email v = email)"
  proof -
    have "UpdateUser (InMemoryUserRepository ks) (ID u) req r =
            (Inr (ToResponse (apply_update req u)), r(ID u \<mapsto> apply_update req u))"
      using InMemory_GetByEmail_cases [OF ord, of email]
    proof (elim disjE conjE exE)
      assume "InMemory_GetByEmail ks r email = Inr None"
      with stored email show ?thesis
        by (simp add: UpdateUser_def UpdateUser_store_def InMemoryUserRepository_def
            InMemory_GetByID_def InMemory_Update_def apply_update_fields)
    next
      fix k x
      assume x: "InMemory_GetByEmail ks r email = Inr (Some x)" "r k = Some x" "Email x = email"
      with no_other have "ID x = ID u" by blast
      with stored email x(1) show ?thesis
        by (simp add: UpdateUser_def UpdateUser_store_def InMemoryUserRepository_def
            InMemory_GetByID_def InMemory_Update_def apply_update_fields)
    qed
    with fields show ?thesis by blast
  qed
  have conflict: "UpdateUser (InMemoryUserRepository ks) (ID u) req r =
              (Inl (NewAppError ErrCodeConflict ''Email is already in use'' email None), r) \<and>
            HTTPStatus (NewAppError ErrCodeConflict ''Email is already in use'' email None) = 409"
    if "\<exists>k v. r k = Some v \<and> ID v \<noteq> ID u \<and> Email v = email"
  proof -
    from that obtain k v where v: "r k = Some v" "ID v \<noteq> ID u" "Email v = email" by blast
    from InMemory_GetByEmail_unique [OF ord uniq v(1)] v(3)
    have "InMemory_GetByEmail ks r email = Inr (Some v)" by simp
    with stored email v(2)
    have "UpdateUser (InMemoryUserRepository ks) (ID u) req r =
              (Inl (NewAppError ErrCodeConflict ''Email is already in use'' email None), r)"
      by (simp add: UpdateUser_def InMemoryUserRepository_def InMemory_GetByID_def)
    then show ?thesis
      by (simp add: HTTPStatus_def NewAppError_def ErrCodeConflict_def)
  qed
  have own: "\<not> (\<exists>k v. r k = Some v \<and> ID v \<noteq> ID u \<and> Email v = email)" if "Email u = email"
  proof
    assume "\<exists>k v. r k = Some v \<and> ID v \<noteq> ID u \<and> Email v = email"
    then obtain k v where v: "r k = Some v" "ID v \<noteq> ID u" "Email v = email" by blast
    with uniq stored that have "k = ID u" unfolding emails_unique_def by metis
    with v(1) stored have "v = u" by simp
    with v(2) show False by simp
  qed
  from conflict succ own show ?thesis by blast
qed

theorem UpdateUser_email_uniqueness_witness:
  "two_users (ID alice) = Some alice \<and> emails_unique two_users \<and>
   iteration_order two_users [''u1'', ''u2''] \<and>
   (\<exists>k v. two_users k = Some v \<and> ID v \<noteq> ID alice \<and> Email v = ''bob@example.com'') \<and>
   UpdateUser (InMemoryUserRepository [''u1'', ''u2'']) ''u1''
     \<lparr>upd_Email = Some ''bob@example.com'', upd_Name = None, upd_Role = None,
        upd_Active = None\<rparr> two_users =
     (Inl (NewAppError ErrCodeConflict ''Email is already in use'' ''bob@example.com'' None),
      two_users) \<and>
   (\<exists>u'. UpdateUser (InMemoryUserRepository [''u1'', ''u2'']) ''u1''
            \<lparr>upd_Email = Some ''alice@example.com'', upd_Name = None,
               upd_Role = Some ''viewer'', upd_Active = None\<rparr> two_users =
            (Inr (ToResponse u'), two_users(''u1'' \<mapsto> u')) \<and>
          ID u' = ''u1'' \<and> Email u' = ''alice@example.com'' \<and> Name u' = ''Alice'' \<and>
          Role u' = ''viewer'' \<and> Active u' = True \<and> CreatedAt u' = 1000 \<and>
          UpdatedAt u' = 1000) \<and>
   InMemory_GetByEmail [''u1'', ''u2''] two_users ''new@example.com'' = Inr None \<and>
   (\<exists>u'. UpdateUser (InMemoryUserRepository [''u1'', ''u2'']) ''u1''
            \<lparr>upd_Email = Some ''new@example.com'', upd_Name = Some ''Alicia'',
               upd_Role = None, upd_Active = Some False\<rparr> two_users =
            (Inr (ToResponse u'), two_users(''u1'' \<mapsto> u')) \<and>
          ID u' = ''u1'' \<and> Email u' = ''new@example.com'' \<and> Name u' = ''Alicia'' \<and>
          Role u' = ''admin'' \<and> Active u' = False \<and> CreatedAt u' = 1000 \<and>
          UpdatedAt u' = 1000)"
proof -
  have stored: "two_users (ID alice) = Some alice"
    by (simp add: two_users_def alice_def bob_def NewUser_def)
  have other: "\<exists>k v. two_users k = Some v \<and> ID v \<noteq> ID alice \<and> Email v = ''bob@example.com''"
    by (rule exI [of _ "''u2''"], rule exI [of _ bob])
      (simp add: two_users_def alice_def bob_def NewUser_def)
  have nobody: "\<not> (\<exists>k v. two_users k = Some v \<and> ID v \<noteq> ID alice \<and>
      Email v = ''new@example.com'')"
    by (auto simp add: two_users_def alice_def bob_def NewUser_def split: if_splits)
  have none: "InMemory_GetByEmail [''u1'', ''u2''] two_users ''new@example.com'' = Inr None"
    by (simp add: InMemory_GetByEmail_def two_users_def alice_def bob_def NewUser_def)
  have a: "ID alice = ''u1''" "Email alice = ''alice@example.com''" "Role alice = ''admin''"
    "CreatedAt alice = 1000" "UpdatedAt alice = 1000" "Name alice = ''Alice''" "Active alice = True"
    by (simp_all add: alice_def NewUser_def)
  have conflict: "UpdateUser (InMemoryUserRepository [''u1'', ''u2'']) (ID alice)
     \<lparr>upd_Email = Some ''bob@example.com'', upd_Name = None, upd_Role = None,
        upd_Active = None\<rparr> two_users =
     (Inl (NewAppError ErrCodeConflict ''Email is already in use'' ''bob@example.com'' None),
      two_users)"
    using UpdateUser_email_uniqueness [OF stored two_users_unique two_users_order,
        where req = "\<lparr>upd_Email = Some ''bob@example.com'', upd_Name = None, upd_Role = None,
        upd_Active = None\<rparr>" and email = "''bob@example.com''"] other
    by simp
  have own: "\<exists>u'. UpdateUser (InMemoryUserRepository [''u1'', ''u2'']) (ID alice)
            \<lparr>upd_Email = Some ''alice@example.com'', upd_Name = None,
               upd_Role = Some ''viewer'', upd_Active = None\<rparr> two_users =
            (Inr (ToResponse u'), two_users(ID alice \<mapsto> u')) \<and>
          ID u' = ID alice \<and> Email u' = ''alice@example.com'' \<and> Name u' = Name alice \<and>
          Role u' = ''viewer'' \<and> Active u' = Active alice \<and> CreatedAt u' = CreatedAt alice \<and>
          UpdatedAt u' = UpdatedAt alice"
    using UpdateUser_email_uniqueness [OF stored two_users_unique two_users_order,
        where req = "\<lparr>upd_Email = Some ''alice@example.com'', upd_Name = None,
               upd_Role = Some ''viewer'', upd_Active = None\<rparr>" and email = "''alice@example.com''",
        THEN conjunct2, THEN conjunct1]
    by (simp add: a) blast
  have fresh: "\<exists>u'. UpdateUser (InMemoryUserRepository [''u1'', ''u2'']) (ID alice)
            \<lparr>upd_Email = Some ''new@example.com'', upd_Name = Some ''Alicia'',
               upd_Role = None, upd_Active = Some False\<rparr> two_users =
            (Inr (ToResponse u'), two_users(ID alice \<mapsto> u')) \<and>
          ID u' = ID alice \<and> Email u' = ''new@example.com'' \<and> Name u' = ''Alicia'' \<and>
          Role u' = Role alice \<and> Active u' = False \<and> CreatedAt u' = CreatedAt alice \<and>
          UpdatedAt u' = UpdatedAt alice"
    using UpdateUser_email_uniqueness [OF stored two_users_unique two_users_order,
        where req = "\<lparr>upd_Email = Some ''new@example.com'', upd_Name = Some ''Alicia'',
               upd_Role = None, upd_Active = Some False\<rparr>" and email = "''new@example.com''",
        THEN conjunct2, THEN conjunct2] nobody
    by simp blast
  from stored other conflict own fresh none two_users_unique two_users_order
  show ?thesis unfolding a by blast
qed

section \<open>The HTTP handler\<close>

text \<open>
  C4, as the code has it. For every request \<^verbatim>\<open>GET /api/v1/users/{id}\<close> the handler
  responds 200 with a fixed body (email \<^verbatim>\<open>user@example.com\<close>, name
  \<^verbatim>\<open>Test User\<close>, role \<^verbatim>\<open>user\<close>, active, zero stamps) that carries the requested
  identifier; it consults no repository and never responds 404.
\<close>

theorem Handlers_GetUser_mock:
  "Handlers_GetUser uid =
     (200, \<lparr>resp_ID = uid, resp_Email = ''user@example.com'', resp_Name = ''Test User'',
            resp_Role = ''user'', resp_Active = True, resp_CreatedAt = 0,
            resp_UpdatedAt = 0\<rparr>) \<and>
   fst (Handlers_GetUser uid) \<noteq> 404"
  by (simp add: Handlers_GetUser_def)

text \<open>
  No user with identifier \<^verbatim>\<open>123\<close> exists in the empty repository, and the handler
  does not answer 404 to a request for it.
\<close>

theorem Handlers_GetUser_counterexample:
  "InMemory_GetByID NewInMemoryUserRepository ''123'' = Inr None \<and>
   fst (Handlers_GetUser ''123'') \<noteq> 404"
  by (simp add: Handlers_GetUser_def InMemory_GetByID_def NewInMemoryUserRepository_def)

section \<open>Pagination\<close>

text \<open>The clamped page is at least 1 and the clamped page size lies between 1 and 100.\<close>

lemma ListUsers_page_sint:
  "sint (ListUsers_page page) = (if sint page < 1 then 1 else sint page)"
  by (simp add: ListUsers_page_def word_sless_alt)

lemma ListUsers_pageSize_sint:
  "sint (ListUsers_pageSize pageSize) =
     (if sint pageSize < 1 \<or> 100 < sint pageSize then 10 else sint pageSize)"
  by (simp add: ListUsers_pageSize_def word_sless_alt)

text \<open>So the limit that \<^verbatim>\<open>ListUsers\<close> passes to \<^verbatim>\<open>List\<close> is never negative.\<close>

lemma ListUsers_limit_range:
  "1 \<le> sint (ListUsers_pageSize pageSize) \<and> sint (ListUsers_pageSize pageSize) \<le> 100"
  by (simp add: ListUsers_pageSize_sint)

lemma sint_bounds64: "- (2 ^ 63) \<le> sint (w :: go_int) \<and> sint w < 2 ^ 63"
  using sint_ge [of w] sint_lt [of w] by simp

lemma signed_take_bit_id63:
  "- (2 ^ 63) \<le> (x::int) \<Longrightarrow> x < 2 ^ 63 \<Longrightarrow> signed_take_bit 63 x = x"
  by (simp add: signed_take_bit_int_eq_self_iff)

lemma sint_page_minus_1:
  "sint (ListUsers_page page - 1) = sint (ListUsers_page page) - 1"
proof -
  have "1 \<le> sint (ListUsers_page page)" by (simp add: ListUsers_page_sint)
  moreover have "sint (ListUsers_page page) < 2 ^ 63" using sint_bounds64 by blast
  ultimately show ?thesis
    by (simp add: sint_word_ariths signed_take_bit_id63)
qed

lemma ListUsers_offset_sint:
  "sint (ListUsers_offset page pageSize) =
     signed_take_bit 63 ((sint (ListUsers_page page) - 1) * sint (ListUsers_pageSize pageSize))"
proof -
  have "sint (ListUsers_offset page pageSize) =
          signed_take_bit 63 (sint (ListUsers_page page - 1) * sint (ListUsers_pageSize pageSize))"
    unfolding ListUsers_offset_def by (simp add: sint_word_ariths)
  then show ?thesis by (simp only: sint_page_minus_1)
qed

lemma sdiv_nonneg: "0 \<le> (k::int) \<Longrightarrow> 0 < l \<Longrightarrow> k sdiv l = k div l"
  by (cases "k = 0") (simp_all add: signed_divide_int_def)

lemma ceiling_div_int:
  fixes t p :: int
  assumes "0 < p"
  shows "- (- t div p) = (t + p - 1) div p"
proof -
  define q m where "q = t div p" and "m = t mod p"
  have t: "t = p * q + m" by (simp add: q_def m_def)
  have m: "0 \<le> m" "m < p" using assms by (simp_all add: m_def)
  show ?thesis
  proof (cases "m = 0")
    case True
    have l: "- t div p = - q"
      by (rule int_div_pos_eq [where r = 0]) (use t True assms in simp_all)
    have "(t + p - 1) div p = q"
      by (rule int_div_pos_eq [where r = "p - 1"]) (use t True assms in simp_all)
    with l show ?thesis by simp
  next
    case False
    have l: "- t div p = - q - 1"
      by (rule int_div_pos_eq [where r = "p - m"]) (use t m False in \<open>simp_all add: algebra_simps\<close>)
    have "(t + p - 1) div p = q + 1"
      by (rule int_div_pos_eq [where r = "m - 1"]) (use t m False in \<open>simp_all add: algebra_simps\<close>)
    with l show ?thesis by simp
  qed
qed

lemma go_div_ceiling:
  fixes total' pageSize :: go_int
  assumes "0 \<le> sint total'" "sint total' < 2 ^ 63 - 100"
    and "1 \<le> sint pageSize" "sint pageSize \<le> 100"
  shows "sint (go_div (total' + pageSize - 1) pageSize) =
           \<lceil>real_of_int (sint total') / real_of_int (sint pageSize)\<rceil>"
proof -
  let ?t = "sint total'" and ?p = "sint pageSize"
  have s: "sint (total' + pageSize - 1) = ?t + ?p - 1"
  proof -
    have "sint (total' + pageSize) = ?t + ?p"
      using assms by (simp add: sint_word_ariths signed_take_bit_id63)
    then show ?thesis using assms by (simp add: sint_word_ariths signed_take_bit_id63)
  qed
  have nn: "0 \<le> ?t + ?p - 1" using assms by simp
  have q: "(?t + ?p - 1) sdiv ?p = (?t + ?p - 1) div ?p"
    using nn assms(3) by (simp add: sdiv_nonneg)
  have b: "0 \<le> (?t + ?p - 1) div ?p" "(?t + ?p - 1) div ?p \<le> ?t + ?p - 1"
  proof -
    show "0 \<le> (?t + ?p - 1) div ?p" using nn assms(3) by (simp add: pos_imp_zdiv_nonneg_iff)
    show "(?t + ?p - 1) div ?p \<le> ?t + ?p - 1"
    proof (cases "?t + ?p - 1 = 0")
      case True then show ?thesis by simp
    next
      case False with nn show ?thesis by (intro int_div_le_self) simp
    qed
  qed
  have "sint (go_div (total' + pageSize - 1) pageSize) = (?t + ?p - 1) div ?p"
    unfolding go_div_def s q using b assms by (simp add: sint_sbintrunc' signed_take_bit_id63)
  also have "\<dots> = \<lceil>real_of_int ?t / real_of_int ?p\<rceil>"
  proof -
    have "\<lceil>real_of_int ?t / real_of_int ?p\<rceil> = - (- ?t div ?p)"
      by (rule ceiling_divide_eq_div)
    also have "\<dots> = (?t + ?p - 1) div ?p"
      using assms(3) by (simp add: ceiling_div_int)
    finally show ?thesis by simp
  qed
  finally show ?thesis .
qed

text \<open>
  The in-memory repository counts its records, so with fewer than \<open>2 ^ 63 - 100\<close>
  of them the response of \<^verbatim>\<open>ListUsers\<close> has that count as total and its ceiling
  quotient by the page size as number of pages.
\<close>

lemma InMemory_Count_sint:
  assumes "card (dom r) < 2 ^ 63"
  shows "\<exists>total'. InMemory_Count r = Inr total' \<and> sint total' = int (card (dom r))"
proof -
  have "sint (of_nat (card (dom r)) :: go_int) = int (card (dom r))"
  proof -
    have "int (card (dom r)) < 2 ^ 63" using assms by (simp add: of_nat_less_numeral_power_cancel_iff)
    then show ?thesis
      using signed_of_nat [where ?'b = 64 and ?'a = int, of "card (dom r)"]
      by (simp add: signed_take_bit_int_eq_self_iff)
  qed
  then show ?thesis by (simp add: InMemory_Count_def)
qed

lemma InMemory_ListUsers_totalPages:
  assumes "card (dom r) < 2 ^ 63 - 100"
  shows "\<exists>resp. ListUsers (InMemoryUserRepository ks) page pageSize r = Inr resp \<and>
           sint (Total resp) = int (card (dom r)) \<and>
           sint (TotalPages resp) =
             \<lceil>real (card (dom r)) / real_of_int (sint (ListUsers_pageSize pageSize))\<rceil>"
proof -
  from assms have "card (dom r) < 2 ^ 63" by simp
  from InMemory_Count_sint [OF this]
  obtain total' where t: "InMemory_Count r = Inr total'" "sint total' = int (card (dom r))"
    by blast
  from assms have "int (card (dom r)) < 2 ^ 63 - 100"
    by (simp add: of_nat_less_numeral_power_cancel_iff less_diff_conv)
  with t(2) have b: "0 \<le> sint total'" "sint total' < 2 ^ 63 - 100" by simp_all
  have "1 \<le> sint (ListUsers_pageSize pageSize)" "sint (ListUsers_pageSize pageSize) \<le> 100"
    by (simp_all add: ListUsers_pageSize_sint)
  with b have "sint (go_div (total' + ListUsers_pageSize pageSize - 1) (ListUsers_pageSize pageSize))
      = \<lceil>real_of_int (sint total') / real_of_int (sint (ListUsers_pageSize pageSize))\<rceil>"
    by (intro go_div_ceiling)
  with t show ?thesis
    by (simp add: ListUsers_def Let_def InMemoryUserRepository_def InMemory_List_def)
qed

text \<open>
  C2, as the code has it. \<^verbatim>\<open>ListUsers\<close> replaces a page below 1 by 1 and a page size
  that is at most 0 or above 100 by 10. It queries the repository with the clamped page
  size as limit and with the offset (page - 1) * pageSize computed in Go's 64-bit
  \<^verbatim>\<open>int\<close>: the product reduced to the signed 64-bit range, which is the product
  itself whenever that is below \<open>2 ^ 63\<close>. When both repository calls succeed the
  response carries the listed users, the total, the clamped page and page size, and a
  number of pages that is the ceiling of total / pageSize for every total from 0 up to
  \<open>2 ^ 63 - 101\<close>.
\<close>

theorem ListUsers_pagination:
  "ListUsers_page page = (if sint page < 1 then 1 else page) \<and>
   ListUsers_pageSize pageSize =
     (if sint pageSize \<le> 0 \<or> sint pageSize > 100 then 10 else pageSize) \<and>
   sint (ListUsers_offset page pageSize) =
     signed_take_bit 63 ((sint (ListUsers_page page) - 1) * sint (ListUsers_pageSize pageSize)) \<and>
   ((sint (ListUsers_page page) - 1) * sint (ListUsers_pageSize pageSize) < 2 ^ 63 \<longrightarrow>
      sint (ListUsers_offset page pageSize) =
        (sint (ListUsers_page page) - 1) * sint (ListUsers_pageSize pageSize)) \<and>
   (List repo s (ListUsers_pageSize pageSize) (ListUsers_offset page pageSize) = Inr us \<and>
    Count repo s = Inr total' \<longrightarrow>
      (\<exists>totalPages.
         ListUsers repo page pageSize s =
           Inr \<lparr>Users = map ToResponse us, Total = total', Page = ListUsers_page page,
                PageSize = ListUsers_pageSize pageSize, TotalPages = totalPages\<rparr> \<and>
         (0 \<le> sint total' \<and> sint total' < 2 ^ 63 - 100 \<longrightarrow>
            sint totalPages =
              \<lceil>real_of_int (sint total') / real_of_int (sint (ListUsers_pageSize pageSize))\<rceil>)))"
proof (intro conjI impI)
  show "ListUsers_page page = (if sint page < 1 then 1 else page)"
    by (simp add: ListUsers_page_def word_sless_alt)
  show "ListUsers_pageSize pageSize =
     (if sint pageSize \<le> 0 \<or> sint pageSize > 100 then 10 else pageSize)"
    by (auto simp add: ListUsers_pageSize_def word_sless_alt)
  show "sint (ListUsers_offset page pageSize) =
     signed_take_bit 63 ((sint (ListUsers_page page) - 1) * sint (ListUsers_pageSize pageSize))"
    by (rule ListUsers_offset_sint)
next
  assume lt: "(sint (ListUsers_page page) - 1) * sint (ListUsers_pageSize pageSize) < 2 ^ 63"
  have "0 \<le> sint (ListUsers_page page) - 1" by (simp add: ListUsers_page_sint)
  moreover have "0 \<le> sint (ListUsers_pageSize pageSize)" by (simp add: ListUsers_pageSize_sint)
  ultimately have "0 \<le> (sint (ListUsers_page page) - 1) * sint (ListUsers_pageSize pageSize)"
    by (rule mult_nonneg_nonneg)
  then have "- (2 ^ 63) \<le> (sint (ListUsers_page page) - 1) * sint (ListUsers_pageSize pageSize)"
    by simp
  from signed_take_bit_id63 [OF this lt]
  show "sint (ListUsers_offset page pageSize) =
        (sint (ListUsers_page page) - 1) * sint (ListUsers_pageSize pageSize)"
    by (simp only: ListUsers_offset_sint)
next
  assume a: "List repo s (ListUsers_pageSize pageSize) (ListUsers_offset page pageSize) = Inr us \<and>
    Count repo s = Inr total'"
  let ?tp = "go_div (total' + ListUsers_pageSize pageSize - 1) (ListUsers_pageSize pageSize)"
  have r: "ListUsers repo page pageSize s =
           Inr \<lparr>Users = map ToResponse us, Total = total', Page = ListUsers_page page,
                PageSize = ListUsers_pageSize pageSize, TotalPages = ?tp\<rparr>"
    using a by (simp add: ListUsers_def Let_def)
  have c: "0 \<le> sint total' \<and> sint total' < 2 ^ 63 - 100 \<longrightarrow>
            sint ?tp =
              \<lceil>real_of_int (sint total') / real_of_int (sint (ListUsers_pageSize pageSize))\<rceil>"
  proof
    assume b: "0 \<le> sint total' \<and> sint total' < 2 ^ 63 - 100"
    have "1 \<le> sint (ListUsers_pageSize pageSize)" "sint (ListUsers_pageSize pageSize) \<le> 100"
      by (simp_all add: ListUsers_pageSize_sint)
    with b show "sint ?tp =
              \<lceil>real_of_int (sint total') / real_of_int (sint (ListUsers_pageSize pageSize))\<rceil>"
      by (intro go_div_ceiling) simp_all
  qed
  from r c show "\<exists>totalPages.
         ListUsers repo page pageSize s =
           Inr \<lparr>Users = map ToResponse us, Total = total', Page = ListUsers_page page,
                PageSize = ListUsers_pageSize pageSize, TotalPages = totalPages\<rparr> \<and>
         (0 \<le> sint total' \<and> sint total' < 2 ^ 63 - 100 \<longrightarrow>
            sint totalPages =
              \<lceil>real_of_int (sint total') / real_of_int (sint (ListUsers_pageSize pageSize))\<rceil>)"
    by blast
qed

lemma two_users_List:
  "List (InMemoryUserRepository [''u1'', ''u2'']) two_users (ListUsers_pageSize 1) (ListUsers_offset 2 1) = Inr [bob]"
  by (simp add: InMemoryUserRepository_def InMemory_List_def ListUsers_pageSize_def
      ListUsers_offset_def ListUsers_page_def word_sless_alt two_users_def)

lemma two_users_Count:
  "Count (InMemoryUserRepository [''u1'', ''u2'']) two_users = Inr 2"
  by (simp add: InMemoryUserRepository_def InMemory_Count_def two_users_def)

theorem ListUsers_pagination_witness:
  "sint (ListUsers_offset 2 1) = 1 \<and>
   (\<exists>totalPages.
      ListUsers (InMemoryUserRepository [''u1'', ''u2'']) 2 1 two_users =
        Inr \<lparr>Users = [ToResponse bob], Total = 2, Page = 2, PageSize = 1,
             TotalPages = totalPages\<rparr> \<and>
      sint totalPages = 2)"
proof -
  have p: "ListUsers_page 2 = 2" "ListUsers_pageSize 1 = 1"
    by (simp_all add: ListUsers_page_def ListUsers_pageSize_def word_sless_alt)
  have lt: "(sint (ListUsers_page 2) - 1) * sint (ListUsers_pageSize 1) < 2 ^ 63"
    by (simp add: p)
  have t: "0 \<le> sint (2 :: go_int) \<and> sint (2 :: go_int) < 2 ^ 63 - 100" by simp
  from ListUsers_pagination [of 2 1 "InMemoryUserRepository [''u1'', ''u2'']" two_users "[bob]" 2]
    two_users_List two_users_Count lt t
  show ?thesis by (simp add: p)
qed

text \<open>
  At page \<open>2 ^ 63 - 1\<close> with page size 10 the offset passed to the repository is not
  the product (page - 1) * pageSize of the two integers.
\<close>

theorem ListUsers_offset_counterexample:
  "sint (ListUsers_offset 9223372036854775807 10) \<noteq>
     (sint (ListUsers_page 9223372036854775807) - 1) * sint (ListUsers_pageSize 10)"
  by (simp add: ListUsers_offset_def ListUsers_page_def ListUsers_pageSize_def word_sless_alt)

text \<open>The offset there is \<open>- 20\<close>, and the in-memory repository answers with its first page.\<close>

lemma ListUsers_offset_wraps:
  "sint (ListUsers_offset 9223372036854775807 10) = - 20"
  by (simp add: ListUsers_offset_def ListUsers_page_def ListUsers_pageSize_def word_sless_alt)

lemma ListUsers_overflow_page:
  "ListUsers (InMemoryUserRepository [''u1'', ''u2'']) 9223372036854775807 10 two_users =
     Inr \<lparr>Users = [ToResponse alice, ToResponse bob], Total = 2, Page = 9223372036854775807,
          PageSize = 10, TotalPages = 1\<rparr>"
  by (simp add: ListUsers_def Let_def InMemoryUserRepository_def InMemory_List_def
      InMemory_Count_def ListUsers_pageSize_def
      ListUsers_offset_def ListUsers_page_def word_sless_alt two_users_def go_div_def)

section \<open>Repository failures\<close>

text \<open>
  C8. For every repository behind the interface and at each of its calls made by
  \<^verbatim>\<open>CreateUser\<close>, \<^verbatim>\<open>GetUser\<close>, \<^verbatim>\<open>ListUsers\<close>, \<^verbatim>\<open>UpdateUser\<close> and
  \<^verbatim>\<open>DeleteUser\<close>: when the call returns an error, whatever its text, the operation
  returns \<^verbatim>\<open>ErrInternalServer\<close>. That error has HTTP code 500 and the message
  \<^verbatim>\<open>An unexpected error occurred\<close>, no detail and no wrapped cause, so its text is
  the message alone.
\<close>

theorem repository_errors_are_internal:
  "(GetByEmail repo s (req_Email creq) = Inl err \<longrightarrow>
      fst (CreateUser repo now uuid creq s) = Inl ErrInternalServer) \<and>
   (GetByEmail repo s (req_Email creq) = Inr None \<and>
    fst (Create repo s (NewUser now uuid (req_Email creq) (req_Name creq) (req_Role creq))) = Some err \<longrightarrow>
      fst (CreateUser repo now uuid creq s) = Inl ErrInternalServer) \<and>
   (GetByID repo s uid = Inl err \<longrightarrow> GetUser repo uid s = Inl ErrInternalServer) \<and>
   (List repo s (ListUsers_pageSize pageSize) (ListUsers_offset page pageSize) = Inl err \<longrightarrow>
      ListUsers repo page pageSize s = Inl ErrInternalServer) \<and>
   (List repo s (ListUsers_pageSize pageSize) (ListUsers_offset page pageSize) = Inr us \<and>
    Count repo s = Inl err \<longrightarrow>
      ListUsers repo page pageSize s = Inl ErrInternalServer) \<and>
   (GetByID repo s uid = Inl err \<longrightarrow>
      fst (UpdateUser repo uid ureq s) = Inl ErrInternalServer) \<and>
   (GetByID repo s uid = Inr (Some u) \<and> upd_Email ureq = Some email \<and>
    GetByEmail repo s email = Inl err \<longrightarrow>
      fst (UpdateUser repo uid ureq s) = Inl ErrInternalServer) \<and>
   (GetByID repo s uid = Inr (Some u) \<and>
    (upd_Email ureq = None \<or>
     (\<exists>e. upd_Email ureq = Some e \<and>
          (GetByEmail repo s e = Inr None \<or>
           (\<exists>x. GetByEmail repo s e = Inr (Some x) \<and> ID x = uid)))) \<and>
    fst (Update repo s (apply_update ureq u)) = Some err \<longrightarrow>
      fst (UpdateUser repo uid ureq s) = Inl ErrInternalServer) \<and>
   (GetByID repo s uid = Inl err \<longrightarrow>
      fst (DeleteUser repo uid s) = Some ErrInternalServer) \<and>
   (GetByID repo s uid = Inr (Some u) \<and> fst (Delete repo s uid) = Some err \<longrightarrow>
      fst (DeleteUser repo uid s) = Some ErrInternalServer) \<and>
   HTTPStatus ErrInternalServer = 500 \<and>
   Message ErrInternalServer = ''An unexpected error occurred'' \<and>
   Detail ErrInternalServer = [] \<and> Internal ErrInternalServer = None \<and>
   Error ErrInternalServer = ''An unexpected error occurred''"
proof -
  have c1: "GetByEmail repo s (req_Email creq) = Inl err \<longrightarrow>
      fst (CreateUser repo now uuid creq s) = Inl ErrInternalServer"
    by (simp add: CreateUser_def)
  have c2: "GetByEmail repo s (req_Email creq) = Inr None \<and>
    fst (Create repo s (NewUser now uuid (req_Email creq) (req_Name creq) (req_Role creq))) = Some err \<longrightarrow>
      fst (CreateUser repo now uuid creq s) = Inl ErrInternalServer"
    by (auto simp add: CreateUser_def split: prod.splits option.splits)
  have g: "GetByID repo s uid = Inl err \<longrightarrow> GetUser repo uid s = Inl ErrInternalServer"
    by (simp add: GetUser_def)
  have l1: "List repo s (ListUsers_pageSize pageSize) (ListUsers_offset page pageSize) = Inl err \<longrightarrow>
      ListUsers repo page pageSize s = Inl ErrInternalServer"
    by (simp add: ListUsers_def Let_def)
  have l2: "List repo s (ListUsers_pageSize pageSize) (ListUsers_offset page pageSize) = Inr us \<and>
    Count repo s = Inl err \<longrightarrow>
      ListUsers repo page pageSize s = Inl ErrInternalServer"
    by (simp add: ListUsers_def Let_def)
  have u1: "GetByID repo s uid = Inl err \<longrightarrow>
      fst (UpdateUser repo uid ureq s) = Inl ErrInternalServer"
    by (simp add: UpdateUser_def)
  have u2: "GetByID repo s uid = Inr (Some u) \<and> upd_Email ureq = Some email \<and>
    GetByEmail repo s email = Inl err \<longrightarrow>
      fst (UpdateUser repo uid ureq s) = Inl ErrInternalServer"
    by (simp add: UpdateUser_def)
  have st: "fst (Update repo s (apply_update ureq u)) = Some err \<Longrightarrow>
      fst (UpdateUser_store repo ureq u s) = Inl ErrInternalServer"
    by (auto simp add: UpdateUser_store_def split: prod.splits option.splits)
  have u3: "GetByID repo s uid = Inr (Some u) \<and>
    (upd_Email ureq = None \<or>
     (\<exists>e. upd_Email ureq = Some e \<and>
          (GetByEmail repo s e = Inr None \<or>
           (\<exists>x. GetByEmail repo s e = Inr (Some x) \<and> ID x = uid)))) \<and>
    fst (Update repo s (apply_update ureq u)) = Some err \<longrightarrow>
      fst (UpdateUser repo uid ureq s) = Inl ErrInternalServer"
    using st by (auto simp add: UpdateUser_def)
  have d1: "GetByID repo s uid = Inl err \<longrightarrow>
      fst (DeleteUser repo uid s) = Some ErrInternalServer"
    by (simp add: DeleteUser_def)
  have d2: "GetByID repo s uid = Inr (Some u) \<and> fst (Delete repo s uid) = Some err \<longrightarrow>
      fst (DeleteUser repo uid s) = Some ErrInternalServer"
    by (auto simp add: DeleteUser_def split: prod.splits option.splits)
  have e: "HTTPStatus ErrInternalServer = 500"
    "Message ErrInternalServer = ''An unexpected error occurred''"
    "Detail ErrInternalServer = []" "Internal ErrInternalServer = None"
    "Error ErrInternalServer = ''An unexpected error occurred''"
    by (simp_all add: HTTPStatus_def ErrInternalServer_def ErrCodeInternal_def Error_def)
  show ?thesis
    by (intro conjI) (rule c1 c2 g l1 l2 u1 u2 u3 d1 d2 e)+
qed

lemmas fx = FailingRepository_def two_users_def alice_def bob_def NewUser_def
  InMemory_GetByID_def InMemory_GetByEmail_def InMemory_List_def InMemory_Count_def
  InMemory_Create_def InMemory_Update_def InMemory_Delete_def

theorem repository_errors_are_internal_witness:
  "fst (CreateUser (FailingRepository [''GetByEmail'']) 3000 ''u3''
          \<lparr>req_Email = ''carol@example.com'', req_Name = ''Carol'', req_Role = ''viewer''\<rparr>
          two_users) = Inl ErrInternalServer \<and>
   fst (CreateUser (FailingRepository [''Create'']) 3000 ''u3''
          \<lparr>req_Email = ''carol@example.com'', req_Name = ''Carol'', req_Role = ''viewer''\<rparr>
          two_users) = Inl ErrInternalServer \<and>
   GetUser (FailingRepository [''GetByID'']) ''u1'' two_users = Inl ErrInternalServer \<and>
   ListUsers (FailingRepository [''List'']) 1 10 two_users = Inl ErrInternalServer \<and>
   ListUsers (FailingRepository [''Count'']) 1 10 two_users = Inl ErrInternalServer \<and>
   fst (UpdateUser (FailingRepository [''GetByID'']) ''u1''
          \<lparr>upd_Email = None, upd_Name = Some ''Alicia'', upd_Role = None, upd_Active = None\<rparr>
          two_users) = Inl ErrInternalServer \<and>
   fst (UpdateUser (FailingRepository [''GetByEmail'']) ''u1''
          \<lparr>upd_Email = Some ''a@example.com'', upd_Name = None, upd_Role = None,
             upd_Active = None\<rparr>
          two_users) = Inl ErrInternalServer \<and>
   fst (UpdateUser (FailingRepository [''Update'']) ''u1''
          \<lparr>upd_Email = None, upd_Name = Some ''Alicia'', upd_Role = None, upd_Active = None\<rparr>
          two_users) = Inl ErrInternalServer \<and>
   fst (DeleteUser (FailingRepository [''GetByID'']) ''u1'' two_users) = Some ErrInternalServer \<and>
   fst (DeleteUser (FailingRepository [''Delete'']) ''u1'' two_users) = Some ErrInternalServer"
proof -
  let ?creq = "\<lparr>req_Email = ''carol@example.com'', req_Name = ''Carol'', req_Role = ''viewer''\<rparr>"
  let ?name = "\<lparr>upd_Email = None, upd_Name = Some ''Alicia'', upd_Role = None, upd_Active = None\<rparr>"
  let ?mail = "\<lparr>upd_Email = Some ''a@example.com'', upd_Name = None, upd_Role = None,
             upd_Active = None\<rparr>"
  let ?err = "''connection refused''"
  have c1: "fst (CreateUser (FailingRepository [''GetByEmail'']) 3000 ''u3'' ?creq two_users)
              = Inl ErrInternalServer"
    using repository_errors_are_internal [where repo = "FailingRepository [''GetByEmail'']"
        and s = two_users and creq = ?creq and err = ?err and now = 3000 and uuid = "''u3''"]
    by (simp add: FailingRepository_def)
  have c2: "fst (CreateUser (FailingRepository [''Create'']) 3000 ''u3'' ?creq two_users)
              = Inl ErrInternalServer"
    using repository_errors_are_internal [where repo = "FailingRepository [''Create'']"
        and s = two_users and creq = ?creq and err = ?err and now = 3000 and uuid = "''u3''"]
    by (simp add: fx)
  have g: "GetUser (FailingRepository [''GetByID'']) ''u1'' two_users = Inl ErrInternalServer"
    using repository_errors_are_internal [where repo = "FailingRepository [''GetByID'']"
        and s = two_users and uid = "''u1''" and err = ?err]
    by (simp add: FailingRepository_def)
  have l1: "ListUsers (FailingRepository [''List'']) 1 10 two_users = Inl ErrInternalServer"
    using repository_errors_are_internal [where repo = "FailingRepository [''List'']"
        and s = two_users and page = 1 and pageSize = 10 and err = ?err]
    by (simp add: FailingRepository_def)
  have l2: "ListUsers (FailingRepository [''Count'']) 1 10 two_users = Inl ErrInternalServer"
    using repository_errors_are_internal [where repo = "FailingRepository [''Count'']"
        and s = two_users and page = 1 and pageSize = 10 and err = ?err
        and us = "[alice, bob]"]
    by (simp add: fx ListUsers_pageSize_def ListUsers_offset_def ListUsers_page_def word_sless_alt)
  have u1: "fst (UpdateUser (FailingRepository [''GetByID'']) ''u1'' ?name two_users)
              = Inl ErrInternalServer"
    using repository_errors_are_internal [where repo = "FailingRepository [''GetByID'']"
        and s = two_users and uid = "''u1''" and ureq = ?name and err = ?err]
    by (simp add: FailingRepository_def)
  have u2: "fst (UpdateUser (FailingRepository [''GetByEmail'']) ''u1'' ?mail two_users)
              = Inl ErrInternalServer"
    using repository_errors_are_internal [where repo = "FailingRepository [''GetByEmail'']"
        and s = two_users and uid = "''u1''" and ureq = ?mail and err = ?err and u = alice
        and email = "''a@example.com''"]
    by (simp add: fx)
  have u3: "fst (UpdateUser (FailingRepository [''Update'']) ''u1'' ?name two_users)
              = Inl ErrInternalServer"
    using repository_errors_are_internal [where repo = "FailingRepository [''Update'']"
        and s = two_users and uid = "''u1''" and ureq = ?name and err = ?err and u = alice]
    by (simp add: fx)
  have d1: "fst (DeleteUser (FailingRepository [''GetByID'']) ''u1'' two_users)
              = Some ErrInternalServer"
    using repository_errors_are_internal [where repo = "FailingRepository [''GetByID'']"
        and s = two_users and uid = "''u1''" and err = ?err]
    by (simp add: FailingRepository_def)
  have d2: "fst (DeleteUser (FailingRepository [''Delete'']) ''u1'' two_users)
              = Some ErrInternalServer"
    using repository_errors_are_internal [where repo = "FailingRepository [''Delete'']"
        and s = two_users and uid = "''u1''" and err = ?err and u = alice]
    by (simp add: fx)
  show ?thesis
    by (intro conjI) (rule c1 c2 g l1 l2 u1 u2 u3 d1 d2)+
qed

end
